theory Spec2Isabelle
  imports Main "HOL-Library.Word"
begin

section \<open>Python strings\<close>

text \<open>
  A Python \<open>str\<close> is modelled as a \<open>string\<close>, each \<open>char\<close> read as the code point
  of the same number (U+0000 to U+00FF). The character classes below are the ones the
  Python runtime uses on that range.
\<close>

definition isspace :: "char \<Rightarrow> bool" where
  "isspace c =
     (let n = (of_char c :: nat)
      in (9 \<le> n \<and> n \<le> 13) \<or> (28 \<le> n \<and> n \<le> 32) \<or> n = 133 \<or> n = 160)"

definition isalpha_char :: "char \<Rightarrow> bool" where
  "isalpha_char c =
     (let n = (of_char c :: nat)
      in (65 \<le> n \<and> n \<le> 90) \<or> (97 \<le> n \<and> n \<le> 122) \<or> n = 170 \<or> n = 181 \<or> n = 186
         \<or> (192 \<le> n \<and> n \<le> 214) \<or> (216 \<le> n \<and> n \<le> 246) \<or> (248 \<le> n \<and> n \<le> 255))"

definition lower_char :: "char \<Rightarrow> char" where
  "lower_char c =
     (let n = (of_char c :: nat)
      in if (65 \<le> n \<and> n \<le> 90) \<or> (192 \<le> n \<and> n \<le> 214) \<or> (216 \<le> n \<and> n \<le> 222)
         then char_of (n + 32) else c)"

definition isprintable_char :: "char \<Rightarrow> bool" where
  "isprintable_char c =
     (let n = (of_char c :: nat)
      in \<not> (n < 32 \<or> (127 \<le> n \<and> n \<le> 160) \<or> n = 173))"

text \<open>\<open>s.strip()\<close>: whitespace removed at both ends.\<close>

definition py_strip :: "string \<Rightarrow> string" where
  "py_strip s = rev (dropWhile isspace (rev (dropWhile isspace s)))"

text \<open>\<open>s.lower()\<close>\<close>

definition py_lower :: "string \<Rightarrow> string" where
  "py_lower s = map lower_char s"

text \<open>\<open>s.isalpha()\<close>: at least one character, and every character alphabetic.\<close>

definition py_isalpha :: "string \<Rightarrow> bool" where
  "py_isalpha s = (s \<noteq> [] \<and> list_all isalpha_char s)"

text \<open>\<open>s.startswith(p)\<close>\<close>

definition startswith :: "string \<Rightarrow> string \<Rightarrow> bool" where
  "startswith s p = (take (length p) s = p)"

definition NL :: char where
  "NL = CHR 0x0A"

text \<open>
  \<open>s.partition('\n')\<close>: the text before the first newline, the separator, and the text
  after it; without a newline the whole text and two empty strings.
\<close>

definition partition_nl :: "string \<Rightarrow> string \<times> string \<times> string" where
  "partition_nl s =
     (if NL \<in> set s
      then (takeWhile (\<lambda>c. c \<noteq> NL) s, [NL], drop 1 (dropWhile (\<lambda>c. c \<noteq> NL) s))
      else (s, [], []))"

definition FENCE :: string where
  "FENCE = ''```''"

text \<open>\<open>"```" in s\<close>\<close>

fun contains_fence :: "string \<Rightarrow> bool" where
  "contains_fence [] = False"
| "contains_fence (c # cs) = (startswith (c # cs) FENCE \<or> contains_fence cs)"

text \<open>
  \<open>s.split("```")\<close>: the text is scanned from the left; every occurrence of the marker
  found ends a segment and the scan resumes behind it.
\<close>

function split_from :: "string \<Rightarrow> string \<Rightarrow> string list" where
  "split_from acc s =
     (if s = [] then [rev acc]
      else if startswith s FENCE then rev acc # split_from [] (drop 3 s)
      else split_from (hd s # acc) (tl s))"
  by pat_completeness auto
termination
  by (relation "measure (\<lambda>(acc, s). length s)") auto

declare split_from.simps [simp del]

definition split_fence :: "string \<Rightarrow> string list" where
  "split_fence s = split_from [] s"

text \<open>\<open>s.split()\<close>: the maximal runs of non-whitespace characters.\<close>

fun split_ws_from :: "string \<Rightarrow> string \<Rightarrow> string list" where
  "split_ws_from acc [] = (if acc = [] then [] else [rev acc])"
| "split_ws_from acc (c # cs) =
     (if isspace c then (if acc = [] then split_ws_from [] cs else rev acc # split_ws_from [] cs)
      else split_ws_from (c # acc) cs)"

definition py_split :: "string \<Rightarrow> string list" where
  "py_split s = split_ws_from [] s"

section \<open>The data model\<close>

text \<open>The classes \<open>CodeSnippet\<close>, \<open>ChatMessage\<close> and \<open>AppState\<close>.\<close>

record code_snippet =
  snippet_id :: string
  filename :: string
  language :: string
  content :: string
  description :: "string option"

record chat_message =
  role :: string
  parts :: "string list"

text \<open>
  A Python \<open>dict\<close> keeps its keys in insertion order, and the chat flow reads that order,
  so \<open>selected_code_ids_for_download\<close> is an association list with one pair for each key.
\<close>

type_synonym selection = "(string \<times> bool) list"

record app_state =
  api_key_configured :: bool
  chat_history :: "chat_message list"
  generated_codes :: "code_snippet list"
  current_explanation :: "string option"
  selected_code_ids_for_download :: selection

definition AppState :: app_state where
  "AppState = \<lparr>api_key_configured = False, chat_history = [], generated_codes = [],
     current_explanation = None, selected_code_ids_for_download = []\<rparr>"

text \<open>\<open>d.get(k, default)\<close>\<close>

fun dict_get :: "selection \<Rightarrow> string \<Rightarrow> bool \<Rightarrow> bool" where
  "dict_get [] k dflt = dflt"
| "dict_get ((k', v) # d) k dflt = (if k' = k then v else dict_get d k dflt)"

text \<open>\<open>d[k] = v\<close>: an existing key keeps its place, a new key goes to the end.\<close>

fun dict_set :: "selection \<Rightarrow> string \<Rightarrow> bool \<Rightarrow> selection" where
  "dict_set [] k v = [(k, v)]"
| "dict_set ((k', v') # d) k v = (if k' = k then (k, v) # d else (k', v') # dict_set d k v)"

text \<open>\<open>d.update(e)\<close>\<close>

definition dict_update :: "selection \<Rightarrow> selection \<Rightarrow> selection" where
  "dict_update d e = fold (\<lambda>(k, v) d'. dict_set d' k v) e d"


section \<open>Python values and errors\<close>

datatype py_error = NameError | IndexError

text \<open>\<open>xs[i]\<close> for \<open>i \<ge> 0\<close>: an index behind the end raises \<open>IndexError\<close>.\<close>

definition py_index :: "'a list \<Rightarrow> nat \<Rightarrow> py_error + 'a" where
  "py_index xs i = (if i < length xs then Inr (xs ! i) else Inl IndexError)"

text \<open>
  \<open>repr(s)\<close> of a string: double quotes when the text has a single quote and no double
  quote, single quotes otherwise; the quote in use and the backslash are escaped, tab,
  newline and carriage return by their letters, other unprintable characters in hexadecimal.
\<close>

definition hex_digit :: "nat \<Rightarrow> char" where
  "hex_digit n = ''0123456789abcdef'' ! (n mod 16)"

definition repr_char :: "char \<Rightarrow> char \<Rightarrow> string" where
  "repr_char quote c =
     (if c = quote \<or> c = CHR 0x5C then [CHR 0x5C, c]
      else if c = CHR 0x09 then [CHR 0x5C, CHR ''t'']
      else if c = CHR 0x0A then [CHR 0x5C, CHR ''n'']
      else if c = CHR 0x0D then [CHR 0x5C, CHR ''r'']
      else if isprintable_char c then [c]
      else [CHR 0x5C, CHR ''x'', hex_digit (of_char c div 16), hex_digit (of_char c mod 16)])"

definition py_repr :: "string \<Rightarrow> string" where
  "py_repr s =
     (let quote = (if CHR 0x27 \<in> set s \<and> CHR 0x22 \<notin> set s then CHR 0x22 else CHR 0x27)
      in quote # concat (map (repr_char quote) s) @ [quote])"

text \<open>\<open>", ".join(xs)\<close>\<close>

fun join_comma :: "string list \<Rightarrow> string" where
  "join_comma [] = []"
| "join_comma [x] = x"
| "join_comma (x # y # ys) = x @ '', '' @ join_comma (y # ys)"

text \<open>\<open>str(xs)\<close> of a list of strings, which is what an f-string field gives for it.\<close>

definition py_str_list :: "string list \<Rightarrow> string" where
  "py_str_list xs = ''['' @ join_comma (map py_repr xs) @ '']''"

text \<open>The truth value of \<open>x\<close> where \<open>x\<close> is \<open>None\<close> or a string.\<close>

fun truthy :: "string option \<Rightarrow> bool" where
  "truthy None = False"
| "truthy (Some s) = (s \<noteq> [])"

section \<open>The archive builder\<close>







section \<open>The snippet list and the selection\<close>

text \<open>
  \<open>CodeSnippet(...)\<close> without an \<open>id\<close>: the default factory renders the clock's time stamp
  behind \<open>code_\<close>. The rendered time stamp is the parameter \<open>now\<close>.
\<close>

definition CodeSnippet :: "string \<Rightarrow> string \<Rightarrow> string \<Rightarrow> string \<Rightarrow> string option \<Rightarrow> code_snippet" where
  "CodeSnippet now fname lang text descr =
     \<lparr>snippet_id = ''code_'' @ now, filename = fname, language = lang, content = text,
      description = descr\<rparr>"

definition ChatMessage :: "string \<Rightarrow> string list \<Rightarrow> chat_message" where
  "ChatMessage r ps = \<lparr>role = r, parts = ps\<rparr>"

text \<open>
  Both flows add a snippet in the same two steps: \<open>generated_codes.append(snippet)\<close> and
  \<open>selected_code_ids_for_download[snippet.id] = True\<close>.
\<close>

definition append_snippet :: "code_snippet \<Rightarrow> app_state \<Rightarrow> app_state" where
  "append_snippet snippet st =
     st\<lparr>generated_codes := generated_codes st @ [snippet],
        selected_code_ids_for_download :=
          dict_set (selected_code_ids_for_download st) (snippet_id snippet) True\<rparr>"

text \<open>
  Drawing the snippet list. Each snippet has a checkbox with the key \<open>cb_\<close> and its id; the
  checkbox returns the state the front end holds under that key, or, when it holds none,
  the \<open>value\<close> argument, which is the stored flag. The values are collected in
  \<open>temp_selections\<close> and written back with \<open>update\<close>.
\<close>

definition checkbox :: "(string \<rightharpoonup> bool) \<Rightarrow> bool \<Rightarrow> string \<Rightarrow> bool" where
  "checkbox widgets val key = (case widgets key of Some b \<Rightarrow> b | None \<Rightarrow> val)"

definition temp_selections :: "(string \<rightharpoonup> bool) \<Rightarrow> app_state \<Rightarrow> selection" where
  "temp_selections widgets st =
     fold (\<lambda>snippet temp.
             dict_set temp (snippet_id snippet)
               (checkbox widgets
                  (dict_get (selected_code_ids_for_download st) (snippet_id snippet) False)
                  (''cb_'' @ snippet_id snippet)))
       (generated_codes st) []"

definition draw_snippets :: "(string \<rightharpoonup> bool) \<Rightarrow> app_state \<Rightarrow> app_state" where
  "draw_snippets widgets st =
     (if generated_codes st = [] then st
      else st\<lparr>selected_code_ids_for_download :=
                dict_update (selected_code_ids_for_download st) (temp_selections widgets st)\<rparr>)"



text \<open>
  What a session does to the snippet list, one step at a time: a flow appends a snippet, or
  the list is drawn with the front end's checkbox states (a click on a checkbox is a draw
  in which that checkbox has the new state).
\<close>

datatype store_op = Append code_snippet | Draw "string \<rightharpoonup> bool"

fun apply_op :: "store_op \<Rightarrow> app_state \<Rightarrow> app_state" where
  "apply_op (Append snippet) st = append_snippet snippet st"
| "apply_op (Draw widgets) st = draw_snippets widgets st"

definition run_ops :: "store_op list \<Rightarrow> app_state \<Rightarrow> app_state" where
  "run_ops ops st = fold apply_op ops st"

fun appended :: "store_op list \<Rightarrow> code_snippet list" where
  "appended [] = []"
| "appended (Append snippet # ops) = snippet # appended ops"
| "appended (Draw widgets # ops) = appended ops"

text \<open>Making a snippet at the clock reading \<open>now\<close> and appending it.\<close>

fun create_op :: "string \<times> string \<times> string \<times> string \<times> string option \<Rightarrow> store_op" where
  "create_op (now, fname, lang, text, descr) = Append (CodeSnippet now fname lang text descr)"

section \<open>The generate flow\<close>

definition startswith_any :: "string \<Rightarrow> string list \<Rightarrow> bool" where
  "startswith_any s ps = list_ex (startswith s) ps"

text \<open>
  The value of \<open>code_to_store\<close> for one fenced block, before it is stripped: the block
  without its first line when that line, stripped, is alphabetic, the whole block otherwise.
\<close>

definition code_to_store_of_block :: "string \<Rightarrow> string" where
  "code_to_store_of_block code_block_content =
     (if NL \<in> set code_block_content then
        (case partition_nl code_block_content of
           (first_line, sep, rest_of_code) \<Rightarrow>
             if py_isalpha (py_strip first_line) \<and>
                \<not> startswith_any (py_strip first_line) [''#'', ''//'', ''/*'']
             then rest_of_code
             else code_block_content)
      else code_block_content)"

definition code_to_store :: "string \<Rightarrow> py_error + string" where
  "code_to_store generated_content =
     (if contains_fence generated_content then
        (case py_index (split_fence generated_content) 1 of
           Inl e \<Rightarrow> Inl e
         | Inr code_block_content \<Rightarrow> Inr (py_strip (code_to_store_of_block code_block_content)))
      else Inr (py_strip generated_content))"

text \<open>
  One submission of the generation form with a prompt. \<open>send_gemini_message\<close> is the
  gateway's answer to a prompt (\<open>None\<close> when the call fails), \<open>now\<close> the rendered time
  stamp of the clock when the snippet is made. An exception that nothing catches ends the
  run: the result is then the error with the session state left behind.
\<close>

definition full_prompt :: "string \<Rightarrow> string \<Rightarrow> string" where
  "full_prompt language_gen prompt_gen =
     ''Generate a code snippet for the following task. Provide only the code, no explanations before or after the code block. Language: ''
     @ language_gen @ [NL] @ ''Task: '' @ prompt_gen"

definition generate_code ::
  "(string \<Rightarrow> string option) \<Rightarrow> string \<Rightarrow> string \<Rightarrow> string \<Rightarrow> string \<Rightarrow> app_state
     \<Rightarrow> (py_error \<times> app_state) + app_state" where
  "generate_code send_gemini_message now prompt_gen filename_gen language_gen st =
     (if prompt_gen = [] then Inr st
      else
        let generated_content = send_gemini_message (full_prompt language_gen prompt_gen)
        in if truthy generated_content then
             (case code_to_store (the generated_content) of
                Inl e \<Rightarrow> Inl (e, st)
              | Inr code \<Rightarrow>
                  Inr (append_snippet
                        (CodeSnippet now filename_gen language_gen code
                           (Some (''Generated from prompt: '' @ take 50 prompt_gen @ ''...'')))
                        st))
           else Inr st)"

section \<open>The chat flow\<close>

datatype action_mode = GenerateCode | ExplainCode | CorrectCode

text \<open>
  \<open>[s for s_id, is_sel in ....items() if is_sel]\<close>: the element expression is the name
  \<open>s\<close>, which the loop does not bind and the module never assigns, so that evaluating it
  for the first pair with a true flag raises \<open>NameError\<close>.
\<close>

fun selected_for_chat_correction :: "selection \<Rightarrow> py_error + string list" where
  "selected_for_chat_correction [] = Inr []"
| "selected_for_chat_correction ((s_id, is_sel) # items) =
     (if is_sel then Inl NameError else selected_for_chat_correction items)"

definition latest_code_to_discuss :: "app_state \<Rightarrow> py_error + code_snippet option" where
  "latest_code_to_discuss st =
     (case selected_for_chat_correction (selected_code_ids_for_download st) of
        Inl e \<Rightarrow> Inl e
      | Inr sel \<Rightarrow>
          if sel \<noteq> [] then Inr (find (\<lambda>s. snippet_id s = last sel) (generated_codes st))
          else if generated_codes st \<noteq> [] then Inr (Some (last (generated_codes st)))
          else Inr None)"

definition contextual_prompt :: "action_mode \<Rightarrow> string \<Rightarrow> app_state \<Rightarrow> py_error + string" where
  "contextual_prompt action_mode user_prompt st =
     (if generated_codes st \<noteq> [] \<and> action_mode = CorrectCode then
        (case latest_code_to_discuss st of
           Inl e \<Rightarrow> Inl e
         | Inr (Some snippet) \<Rightarrow>
             Inr (''Regarding the following '' @ language snippet @ '' code snippet (filename: ''
                  @ filename snippet @ ''):'' @ [NL]
                  @ FENCE @ [NL] @ content snippet @ [NL] @ FENCE @ [NL, NL]
                  @ ''User request: '' @ user_prompt @ [NL, NL]
                  @ ''Please provide a corrected version if needed, and an explanation of the changes or your thoughts.''
                  @ '' If providing corrected code, ensure it's in a markdown code block.'')
         | Inr None \<Rightarrow>
             Inr (''User request: '' @ user_prompt
                  @ ''. (No specific code snippet context provided by the app).''))
      else Inr user_prompt)"

text \<open>
  One fenced block of the answer: the new values of \<open>extracted_code_content\<close> and
  \<open>extracted_language\<close>, given the language so far.
\<close>

definition extract_block :: "string \<Rightarrow> string \<Rightarrow> string \<times> string" where
  "extract_block block_content_with_lang extracted_language =
     (if NL \<in> set block_content_with_lang then
        (case partition_nl block_content_with_lang of
           (first_line, sep, code_block) \<Rightarrow>
             let lang_hint = py_lower (py_strip first_line)
             in if lang_hint \<noteq> [] \<and> \<not> list_ex (\<lambda>char. char \<in> set lang_hint) '' :;{(#''
                then (py_strip code_block, lang_hint)
                else (py_strip block_content_with_lang, extracted_language))
      else (py_strip block_content_with_lang, extracted_language))"

text \<open>
  \<open>for i in range(1, len(potential_code_blocks), 2)\<close>, left at the first block with
  content that is not empty.
\<close>

function extract_loop ::
  "string list \<Rightarrow> nat \<Rightarrow> string option \<Rightarrow> string \<Rightarrow> string option \<times> string" where
  "extract_loop potential_code_blocks i extracted_code_content extracted_language =
     (if i < length potential_code_blocks then
        (case extract_block (potential_code_blocks ! i) extracted_language of
           (code, lang) \<Rightarrow>
             if code \<noteq> [] then (Some code, lang)
             else extract_loop potential_code_blocks (i + 2) (Some code) lang)
      else (extracted_code_content, extracted_language))"
  by pat_completeness auto
termination
  by (relation "measure (\<lambda>(blocks, i, code, lang). length blocks - i)") auto

declare extract_loop.simps [simp del]

definition extracted_code :: "string \<Rightarrow> string option \<times> string" where
  "extracted_code ai_response_text =
     extract_loop (split_fence ai_response_text) 1 None ''python''"

text \<open>
  \<open>corrected_snippet\<close>: \<open>hms\<close> is the clock rendered by \<open>strftime('%H%M%S')\<close>, \<open>now\<close>
  the rendered time stamp of the id.
\<close>

definition corrected_snippet :: "string \<Rightarrow> string \<Rightarrow> string \<Rightarrow> string \<Rightarrow> code_snippet" where
  "corrected_snippet now hms extracted_code_content extracted_language =
     CodeSnippet now
       (''corrected_'' @ hms @ ''.''
        @ (if extracted_language \<noteq> [] then py_str_list (py_split extracted_language) else ''txt''))
       (if extracted_language \<noteq> [] then extracted_language else ''unknown'')
       extracted_code_content
       (Some ''Corrected/refined via chat'')"

text \<open>
  The part of a chat turn behind a true answer: the answer is logged, and in correct mode
  a fenced answer may give a new snippet. No statement inside the \<open>try\<close> can raise: the
  indices stay below the length and every field of the snippet is a string.
\<close>

definition record_answer ::
  "string \<Rightarrow> string \<Rightarrow> action_mode \<Rightarrow> string \<Rightarrow> app_state \<Rightarrow> app_state" where
  "record_answer now hms action_mode ai_response_text st =
     (let st' = st\<lparr>chat_history := chat_history st @ [ChatMessage ''model'' [ai_response_text]]\<rparr>
      in if contains_fence ai_response_text \<and> action_mode = CorrectCode then
           (case extracted_code ai_response_text of
              (code, lang) \<Rightarrow>
                if truthy code then append_snippet (corrected_snippet now hms (the code) lang) st'
                else st')
         else st')"

definition record_failure :: "app_state \<Rightarrow> app_state" where
  "record_failure st =
     st\<lparr>chat_history := chat_history st @ [ChatMessage ''model'' [''Sorry, I encountered an issue.'']]\<rparr>"

text \<open>One chat input: the user's message is logged, the prompt is built, the gateway is asked.\<close>

definition chat_turn ::
  "(string \<Rightarrow> string option) \<Rightarrow> string \<Rightarrow> string \<Rightarrow> action_mode \<Rightarrow> string \<Rightarrow> app_state
     \<Rightarrow> (py_error \<times> app_state) + app_state" where
  "chat_turn send_gemini_message now hms action_mode user_prompt st =
     (if user_prompt = [] then Inr st
      else
        let st1 = st\<lparr>chat_history := chat_history st @ [ChatMessage ''user'' [user_prompt]]\<rparr>
        in case contextual_prompt action_mode user_prompt st1 of
             Inl e \<Rightarrow> Inl (e, st1)
           | Inr prompt \<Rightarrow>
               let ai_response_text = send_gemini_message prompt
               in if truthy ai_response_text
                  then Inr (record_answer now hms action_mode (the ai_response_text) st1)
                  else Inr (record_failure st1))"

section \<open>The specification's fenced regions and language hint\<close>






text \<open>
  The hint as the specification words it: an alphabetic token with none of the characters
  space, colon, semicolon, brace, parenthesis and hash. (The specification gives no bound
  for a short token, so none is asked for.)
\<close>

definition spec_language_hint :: "string \<Rightarrow> bool" where
  "spec_language_hint first_line =
     (py_isalpha first_line \<and> \<not> list_ex (\<lambda>c. c \<in> set first_line) '' :;{}()#'')"

section \<open>The archive\<close>




section \<open>The selected snippets\<close>

lemma generated_codes_draw: "generated_codes (draw_snippets w st) = generated_codes st"
  by (simp add: draw_snippets_def)

lemma generated_codes_fold:
  "generated_codes (fold apply_op ops st) = generated_codes st @ appended ops"
proof (induction ops arbitrary: st)
  case Nil
  show ?case by simp
next
  case (Cons x ops)
  show ?case
    by (cases x) (simp_all add: Cons.IH append_snippet_def generated_codes_draw)
qed



section \<open>The chat flow: the snippet to discuss and a failing gateway\<close>

lemma selected_for_chat_correction_cases:
  "selected_for_chat_correction d = (if list_ex snd d then Inl NameError else Inr [])"
  by (induction d) auto

lemma latest_code_to_discuss_cases:
  "latest_code_to_discuss st =
     (if list_ex snd (selected_code_ids_for_download st) then Inl NameError
      else if generated_codes st \<noteq> [] then Inr (Some (last (generated_codes st)))
      else Inr None)"
  by (simp add: latest_code_to_discuss_def selected_for_chat_correction_cases)

text \<open>
  C1. In correct mode, with one snippet in the list and its flag true (as it is right
  after the snippet is made), choosing the snippet to discuss raises the error of an
  unbound name, and the chat turn ends there, before the gateway is asked.
\<close>

theorem latest_code_to_discuss_selected_raises:
  "latest_code_to_discuss
     (append_snippet (CodeSnippet ''1700000000.5'' ''a.py'' ''python'' ''x = 1'' None) AppState)
     = Inl NameError \<and>
   chat_turn send_gemini_message now hms CorrectCode ''fix it''
     (append_snippet (CodeSnippet ''1700000000.5'' ''a.py'' ''python'' ''x = 1'' None) AppState)
     = Inl (NameError,
            (append_snippet (CodeSnippet ''1700000000.5'' ''a.py'' ''python'' ''x = 1'' None) AppState)
              \<lparr>chat_history := [ChatMessage ''user'' [''fix it'']]\<rparr>)"
  by (simp add: chat_turn_def contextual_prompt_def latest_code_to_discuss_cases
        append_snippet_def AppState_def CodeSnippet_def)






section \<open>New snippets\<close>

lemma dict_get_dict_set: "dict_get (dict_set d k v) k dflt = v"
  by (induction d) (auto split: if_splits)

lemma dict_get_default: "k \<notin> fst ` set d \<Longrightarrow> dict_get d k dflt = dflt"
  by (induction d) auto

lemma extract_block_lang: "lang \<noteq> [] \<Longrightarrow> snd (extract_block b lang) \<noteq> []"
  by (simp add: extract_block_def Let_def split: prod.splits)

lemma extract_loop_lang:
  "lang \<noteq> [] \<Longrightarrow> snd (extract_loop blocks i c lang) \<noteq> []"
proof (induction blocks i c lang rule: extract_loop.induct)
  case (1 blocks i c lang)
  show ?case
  proof (cases "i < length blocks")
    case False
    then show ?thesis using "1.prems" by (simp add: extract_loop.simps)
  next
    case True
    obtain code lang' where eb: "extract_block (blocks ! i) lang = (code, lang')"
      by (cases "extract_block (blocks ! i) lang")
    have l': "lang' \<noteq> []"
      using extract_block_lang [OF "1.prems", of "blocks ! i"] eb by simp
    show ?thesis
    proof (cases "code = []")
      case True
      have "\<not> code \<noteq> []" using True by simp
      then have "snd (extract_loop blocks (i + 2) (Some code) lang') \<noteq> []"
        using "1.IH" [OF \<open>i < length blocks\<close> eb [symmetric] _ l'] by blast
      then show ?thesis
        using \<open>i < length blocks\<close> eb True by (subst extract_loop.simps) simp
    next
      case False
      then show ?thesis
        using \<open>i < length blocks\<close> eb l' by (subst extract_loop.simps) simp
    qed
  qed
qed

lemma extracted_code_lang: "snd (extracted_code t) \<noteq> []"
  by (simp add: extracted_code_def extract_loop_lang)

lemma record_answer_cases:
  "(generated_codes (record_answer now hms mode t st) = generated_codes st \<and>
    selected_code_ids_for_download (record_answer now hms mode t st) =
      selected_code_ids_for_download st) \<or>
   (\<exists>code lang. code \<noteq> [] \<and> lang \<noteq> [] \<and>
      generated_codes (record_answer now hms mode t st) =
        generated_codes st @ [corrected_snippet now hms code lang] \<and>
      selected_code_ids_for_download (record_answer now hms mode t st) =
        dict_set (selected_code_ids_for_download st)
          (snippet_id (corrected_snippet now hms code lang)) True)"
proof -
  obtain code lang where ec: "extracted_code t = (code, lang)"
    by (cases "extracted_code t")
  have l: "lang \<noteq> []" using extracted_code_lang [of t] ec by simp
  show ?thesis
  proof (cases "contains_fence t \<and> mode = CorrectCode \<and> truthy code")
    case False
    then show ?thesis
      by (auto simp: record_answer_def Let_def ec)
  next
    case True
    then obtain c where c: "code = Some c" "c \<noteq> []"
      by (cases code) auto
    show ?thesis
      using True c l
      by (auto simp: record_answer_def Let_def ec append_snippet_def)
  qed
qed

lemma chat_turn_cases:
  assumes "chat_turn g now hms mode u st = Inr st'"
  shows "(generated_codes st' = generated_codes st \<and>
          selected_code_ids_for_download st' = selected_code_ids_for_download st) \<or>
         (\<exists>code lang. code \<noteq> [] \<and> lang \<noteq> [] \<and>
            generated_codes st' = generated_codes st @ [corrected_snippet now hms code lang] \<and>
            selected_code_ids_for_download st' =
              dict_set (selected_code_ids_for_download st)
                (snippet_id (corrected_snippet now hms code lang)) True)"
proof (cases "u = []")
  case True
  then show ?thesis using assms by (simp add: chat_turn_def)
next
  case False
  let ?st1 = "st\<lparr>chat_history := chat_history st @ [ChatMessage ''user'' [u]]\<rparr>"
  from assms False obtain p where p: "contextual_prompt mode u ?st1 = Inr p"
    by (cases "contextual_prompt mode u ?st1") (simp_all add: chat_turn_def Let_def)
  show ?thesis
  proof (cases "truthy (g p)")
    case True
    then have "st' = record_answer now hms mode (the (g p)) ?st1"
      using assms False p by (simp add: chat_turn_def Let_def)
    then show ?thesis
      using record_answer_cases [of now hms mode "the (g p)" ?st1] by simp
  next
    case False
    then have "st' = record_failure ?st1"
      using assms \<open>u \<noteq> []\<close> p by (simp add: chat_turn_def Let_def)
    then show ?thesis by (simp add: record_failure_def)
  qed
qed

lemma generate_code_cases:
  assumes "generate_code g now p f l st = Inr st'"
  shows "st' = st \<or>
         (\<exists>code. st' = append_snippet
             (CodeSnippet now f l code
                (Some (''Generated from prompt: '' @ take 50 p @ ''...''))) st)"
  using assms
  by (auto simp: generate_code_def Let_def split: if_splits sum.splits)

text \<open>
  C9. A snippet that the generate flow or the correct flow adds to the list has the flag
  true in the selection when the flow ends; an id that is not a key of the selection
  reads as false.
\<close>

theorem new_snippet_auto_selected:
  "(generate_code g now p f l st = Inr st' \<longrightarrow> generated_codes st' \<noteq> generated_codes st \<longrightarrow>
      (\<exists>snippet. generated_codes st' = generated_codes st @ [snippet] \<and>
         dict_get (selected_code_ids_for_download st') (snippet_id snippet) False)) \<and>
   (chat_turn g' now' hms mode u st = Inr st'' \<longrightarrow> generated_codes st'' \<noteq> generated_codes st \<longrightarrow>
      (\<exists>snippet. generated_codes st'' = generated_codes st @ [snippet] \<and>
         dict_get (selected_code_ids_for_download st'') (snippet_id snippet) False)) \<and>
   (k \<notin> fst ` set d \<longrightarrow> \<not> dict_get d k False)"
proof (intro conjI impI)
  assume a: "generate_code g now p f l st = Inr st'" "generated_codes st' \<noteq> generated_codes st"
  from generate_code_cases [OF a(1)] a(2)
  obtain code where "st' = append_snippet
      (CodeSnippet now f l code (Some (''Generated from prompt: '' @ take 50 p @ ''...''))) st"
    by auto
  then show "\<exists>snippet. generated_codes st' = generated_codes st @ [snippet] \<and>
         dict_get (selected_code_ids_for_download st') (snippet_id snippet) False"
    by (simp add: append_snippet_def dict_get_dict_set)
next
  assume a: "chat_turn g' now' hms mode u st = Inr st''" "generated_codes st'' \<noteq> generated_codes st"
  from chat_turn_cases [OF a(1)] a(2)
  obtain code lang where
    "generated_codes st'' = generated_codes st @ [corrected_snippet now' hms code lang]"
    "selected_code_ids_for_download st'' =
       dict_set (selected_code_ids_for_download st)
         (snippet_id (corrected_snippet now' hms code lang)) True"
    by auto
  then show "\<exists>snippet. generated_codes st'' = generated_codes st @ [snippet] \<and>
         dict_get (selected_code_ids_for_download st'') (snippet_id snippet) False"
    by (simp add: dict_get_dict_set)
next
  assume "k \<notin> fst ` set d"
  then show "\<not> dict_get d k False" by (simp add: dict_get_default)
qed

theorem new_snippet_auto_selected_witness:
  "(\<exists>snippet.
      generated_codes
        (append_snippet (CodeSnippet ''1700000000.5'' ''a.py'' ''python'' ''x = 1''
           (Some ''Generated from prompt: set x...'')) AppState) =
        generated_codes AppState @ [snippet] \<and>
      dict_get (selected_code_ids_for_download
        (append_snippet (CodeSnippet ''1700000000.5'' ''a.py'' ''python'' ''x = 1''
           (Some ''Generated from prompt: set x...'')) AppState)) (snippet_id snippet) False) \<and>
   (\<exists>snippet.
      generated_codes
        (append_snippet (corrected_snippet ''1700000002.5'' ''120000'' ''print(1)'' ''python'')
           (AppState\<lparr>chat_history := [ChatMessage ''user'' [''fix it''],
              ChatMessage ''model'' [''Here:\<newline>```python\<newline>print(1)\<newline>```\<newline>Done'']]\<rparr>)) =
        generated_codes AppState @ [snippet] \<and>
      dict_get (selected_code_ids_for_download
        (append_snippet (corrected_snippet ''1700000002.5'' ''120000'' ''print(1)'' ''python'')
           (AppState\<lparr>chat_history := [ChatMessage ''user'' [''fix it''],
              ChatMessage ''model'' [''Here:\<newline>```python\<newline>print(1)\<newline>```\<newline>Done'']]\<rparr>)))
        (snippet_id snippet) False) \<and>
   \<not> dict_get [(''code_1700000000.5'', True)] ''code_1700000009.5'' False"
proof -
  let ?G = "append_snippet (CodeSnippet ''1700000000.5'' ''a.py'' ''python'' ''x = 1''
           (Some ''Generated from prompt: set x...'')) AppState"
  let ?C = "append_snippet (corrected_snippet ''1700000002.5'' ''120000'' ''print(1)'' ''python'')
           (AppState\<lparr>chat_history := [ChatMessage ''user'' [''fix it''],
              ChatMessage ''model'' [''Here:\<newline>```python\<newline>print(1)\<newline>```\<newline>Done'']]\<rparr>)"
  have g: "generate_code (\<lambda>p. Some ''x = 1'') ''1700000000.5'' ''set x'' ''a.py'' ''python'' AppState
             = Inr ?G"
    by code_simp
  have g': "generated_codes ?G \<noteq> generated_codes AppState"
    by (simp add: append_snippet_def AppState_def)
  have c: "chat_turn (\<lambda>p. Some ''Here:\<newline>```python\<newline>print(1)\<newline>```\<newline>Done'')
             ''1700000002.5'' ''120000'' CorrectCode ''fix it'' AppState = Inr ?C"
    by code_simp
  have c': "generated_codes ?C \<noteq> generated_codes AppState"
    by (simp add: append_snippet_def AppState_def)
  have k: "''code_1700000009.5'' \<notin> fst ` set [(''code_1700000000.5'', True)]"
    by simp
  note t = new_snippet_auto_selected
    [of "\<lambda>p. Some ''x = 1''" "''1700000000.5''" "''set x''" "''a.py''" "''python''" AppState ?G
        "\<lambda>p. Some ''Here:\<newline>```python\<newline>print(1)\<newline>```\<newline>Done''"
        "''1700000002.5''" "''120000''" CorrectCode "''fix it''" ?C
        "''code_1700000009.5''" "[(''code_1700000000.5'', True)]"]
  from t g g' have "\<exists>snippet. generated_codes ?G = generated_codes AppState @ [snippet] \<and>
      dict_get (selected_code_ids_for_download ?G) (snippet_id snippet) False"
    by blast
  moreover from t c c' have "\<exists>snippet. generated_codes ?C = generated_codes AppState @ [snippet] \<and>
      dict_get (selected_code_ids_for_download ?C) (snippet_id snippet) False"
    by blast
  moreover from t k have "\<not> dict_get [(''code_1700000000.5'', True)] ''code_1700000009.5'' False"
    by blast
  ultimately show ?thesis by blast
qed

section \<open>The filename of a corrected snippet\<close>





section \<open>The ids of the snippets\<close>

lemma appended_create_op:
  "appended (map create_op cs) =
     map (\<lambda>(now, fname, lang, text, descr). CodeSnippet now fname lang text descr) cs"
  by (induction cs) auto

lemma snippet_ids_create_op:
  "map snippet_id (generated_codes (run_ops (map create_op cs) AppState)) =
     map (\<lambda>c. ''code_'' @ fst c) cs"
  by (simp add: run_ops_def generated_codes_fold AppState_def appended_create_op
        CodeSnippet_def comp_def split_def)

text \<open>
  C6, as the code has it. The id of a snippet is \<open>code_\<close> and the clock reading at which
  it is made, so that the ids of the appended snippets are pairwise distinct exactly when
  the clock readings are.
\<close>

theorem snippet_ids_distinct_iff:
  "distinct (map snippet_id (generated_codes (run_ops (map create_op cs) AppState))) =
     distinct (map fst cs)"
proof -
  have "inj (\<lambda>s :: string. ''code_'' @ s)"
    by (rule injI) simp
  then have "distinct (map (\<lambda>s. ''code_'' @ s) (map fst cs)) = distinct (map fst cs)"
    by (simp add: distinct_map inj_on_def)
  then show ?thesis
    by (simp add: snippet_ids_create_op comp_def)
qed

theorem snippet_ids_distinct_iff_witness:
  "distinct (map snippet_id (generated_codes (run_ops (map create_op
      [(''1700000000.5'', ''a.py'', ''python'', ''x = 1'', None),
       (''1700000060.25'', ''b.py'', ''python'', ''y = 2'', None)]) AppState)))"
  using snippet_ids_distinct_iff [of
      "[(''1700000000.5'', ''a.py'', ''python'', ''x = 1'', None),
        (''1700000060.25'', ''b.py'', ''python'', ''y = 2'', None)]"]
  by simp

text \<open>
  C6, as the specification has it, fails: two snippets made at the same clock reading
  have the same id.
\<close>

theorem snippet_ids_counterexample:
  "\<not> distinct (map snippet_id (generated_codes (run_ops (map create_op
      [(''1700000000.5'', ''a.py'', ''python'', ''x = 1'', None),
       (''1700000000.5'', ''b.py'', ''python'', ''y = 2'', None)]) AppState)))"
  by (simp add: run_ops_def append_snippet_def AppState_def CodeSnippet_def)

section \<open>The language hint\<close>

lemma partition_nl_append:
  "NL \<notin> set first_line \<Longrightarrow>
   partition_nl (first_line @ NL # rest) = (first_line, [NL], rest)"
  by (induction first_line) (auto simp: partition_nl_def)

lemma isalpha_not_comment:
  "py_isalpha s \<Longrightarrow> \<not> startswith_any s [''#'', ''//'', ''/*'']"
  by (cases s) (auto simp: py_isalpha_def startswith_any_def startswith_def isalpha_char_def)

lemma lower_char_alpha:
  "isalpha_char c \<Longrightarrow>
   (97 \<le> (of_char (lower_char c) :: nat) \<and> (of_char (lower_char c) :: nat) \<le> 122) \<or>
   170 \<le> (of_char (lower_char c) :: nat)"
  unfolding isalpha_char_def lower_char_def Let_def by auto

lemma lower_char_not_stop:
  assumes "isalpha_char c"
  shows "lower_char c \<notin> set '' :;{(#''"
proof
  assume "lower_char c \<in> set '' :;{(#''"
  then have "(of_char (lower_char c) :: nat) \<in> {32, 58, 59, 123, 40, 35}"
    by auto
  with lower_char_alpha [OF assms] show False by auto
qed

lemma py_isalpha_lower_no_stop:
  assumes "py_isalpha t"
  shows "\<not> list_ex (\<lambda>c. c \<in> set (py_lower t)) '' :;{(#''"
proof
  assume "list_ex (\<lambda>c. c \<in> set (py_lower t)) '' :;{(#''"
  then obtain s where s: "s \<in> set '' :;{(#''" "s \<in> set (py_lower t)"
    unfolding list_ex_iff by blast
  from s(2) obtain c where c: "c \<in> set t" "s = lower_char c"
    by (auto simp: py_lower_def)
  from assms c(1) have "isalpha_char c"
    by (simp add: py_isalpha_def list_all_iff)
  from lower_char_not_stop [OF this] s(1) c(2) show False by simp
qed

lemma spec_hint_taken:
  assumes "spec_language_hint t"
  shows "py_isalpha t \<and> py_lower t \<noteq> [] \<and> \<not> list_ex (\<lambda>c. c \<in> set (py_lower t)) '' :;{(#''"
proof -
  from assms have a: "py_isalpha t" by (simp add: spec_language_hint_def)
  then have "py_lower t \<noteq> []" by (simp add: py_isalpha_def py_lower_def)
  with a py_isalpha_lower_no_stop [OF a] show ?thesis by simp
qed

text \<open>
  C3, as the code has it. In a fenced segment with a line break, the text before the
  first line break is taken as a language hint and left out of the code: in the generate
  flow when, stripped, it is alphabetic; in the correct flow when, stripped and in lower
  case, it is not empty and has none of the characters space, colon, semicolon, opening
  brace, opening parenthesis and hash, and it is then the language. In every other case,
  and in a segment without a line break, the whole segment is the code, and the correct
  flow keeps the language it had. A first line that is a hint in the specification's
  words is a hint in both flows.
\<close>

theorem language_hint_rule:
  assumes "NL \<notin> set first_line" and "NL \<notin> set block"
  shows "code_to_store_of_block (first_line @ NL # rest) =
           (if py_isalpha (py_strip first_line) then rest else first_line @ NL # rest) \<and>
         extract_block (first_line @ NL # rest) lang =
           (if py_lower (py_strip first_line) \<noteq> [] \<and>
               \<not> list_ex (\<lambda>c. c \<in> set (py_lower (py_strip first_line))) '' :;{(#''
            then (py_strip rest, py_lower (py_strip first_line))
            else (py_strip (first_line @ NL # rest), lang)) \<and>
         code_to_store_of_block block = block \<and>
         extract_block block lang = (py_strip block, lang) \<and>
         (spec_language_hint (py_strip first_line) \<longrightarrow>
            code_to_store_of_block (first_line @ NL # rest) = rest \<and>
            extract_block (first_line @ NL # rest) lang =
              (py_strip rest, py_lower (py_strip first_line)))"
proof -
  have g: "code_to_store_of_block (first_line @ NL # rest) =
           (if py_isalpha (py_strip first_line) then rest else first_line @ NL # rest)"
    using isalpha_not_comment [of "py_strip first_line"]
    by (simp add: code_to_store_of_block_def partition_nl_append [OF assms(1)])
  have c: "extract_block (first_line @ NL # rest) lang =
           (if py_lower (py_strip first_line) \<noteq> [] \<and>
               \<not> list_ex (\<lambda>c. c \<in> set (py_lower (py_strip first_line))) '' :;{(#''
            then (py_strip rest, py_lower (py_strip first_line))
            else (py_strip (first_line @ NL # rest), lang))"
    by (simp add: extract_block_def partition_nl_append [OF assms(1)] Let_def)
  have b: "code_to_store_of_block block = block \<and> extract_block block lang = (py_strip block, lang)"
    using assms(2) by (simp add: code_to_store_of_block_def extract_block_def)
  have s: "spec_language_hint (py_strip first_line) \<longrightarrow>
            code_to_store_of_block (first_line @ NL # rest) = rest \<and>
            extract_block (first_line @ NL # rest) lang =
              (py_strip rest, py_lower (py_strip first_line))"
    using spec_hint_taken [of "py_strip first_line"] g c by auto
  from g c b s show ?thesis by blast
qed

theorem language_hint_rule_witness:
  "code_to_store_of_block (''python'' @ NL # ''print(1)'') = ''print(1)'' \<and>
   extract_block (''python'' @ NL # ''print(1)'') ''text'' = (''print(1)'', ''python'') \<and>
   code_to_store_of_block ''print(1)'' = ''print(1)'' \<and>
   extract_block ''print(1)'' ''text'' = (''print(1)'', ''text'')"
proof -
  have h1: "NL \<notin> set ''python''" by (simp add: NL_def)
  have h2: "NL \<notin> set ''print(1)''" by (simp add: NL_def)
  have h3: "spec_language_hint (py_strip ''python'')" by code_simp
  have h4: "py_strip ''print(1)'' = ''print(1)''" by code_simp
  have h5: "py_lower (py_strip ''python'') = ''python''" by code_simp
  note t = language_hint_rule [OF h1 h2, of "''print(1)''" "''text''"]
  from t h3 have a: "code_to_store_of_block (''python'' @ NL # ''print(1)'') = ''print(1)''"
    by blast
  from t h3 have b: "extract_block (''python'' @ NL # ''print(1)'') ''text'' =
      (py_strip ''print(1)'', py_lower (py_strip ''python''))"
    by blast
  from t have c: "code_to_store_of_block ''print(1)'' = ''print(1)''"
    by blast
  from t have d: "extract_block ''print(1)'' ''text'' = (py_strip ''print(1)'', ''text'')"
    by blast
  show ?thesis
    using a b c d h4 h5 by simp
qed

text \<open>
  C3, as the specification has it, fails in both directions. In the correct flow the
  first line \<open>x=1\<close> is no alphabetic token, and yet it becomes the language and is
  left out of the code; and in both flows the segment \<open>python\<close>, which has no line
  break, is kept as code.
\<close>

theorem language_hint_counterexample:
  "\<not> spec_language_hint ''x=1'' \<and>
   extract_block ''x=1\<newline>y=2'' ''python'' = (''y=2'', ''x=1'') \<and>
   extracted_code ''```x=1\<newline>y=2```'' = (Some ''y=2'', ''x=1'') \<and>
   spec_language_hint ''python'' \<and>
   code_to_store ''```python```'' = Inr ''python'' \<and>
   extracted_code ''```python```'' = (Some ''python'', ''python'')"
  by code_simp


section \<open>Splitting at the marker\<close>

lemma split_from_Nil: "split_from acc [] = [rev acc]"
  by (simp add: split_from.simps)

lemma split_from_fence:
  "startswith (c # cs) FENCE \<Longrightarrow>
   split_from acc (c # cs) = rev acc # split_from [] (drop 3 (c # cs))"
  by (subst split_from.simps) simp

lemma split_from_other:
  "\<not> startswith (c # cs) FENCE \<Longrightarrow> split_from acc (c # cs) = split_from (c # acc) cs"
  by (subst split_from.simps) simp

lemma split_from_nonempty: "split_from acc s \<noteq> []"
proof (induction acc s rule: split_from.induct)
  case (1 acc s)
  show ?case
  proof (cases s)
    case Nil
    then show ?thesis by (simp add: split_from_Nil)
  next
    case (Cons c cs)
    show ?thesis
    proof (cases "startswith s FENCE")
      case True
      then show ?thesis using Cons by (simp add: split_from_fence)
    next
      case False
      then show ?thesis using Cons "1.IH"(2) by (simp add: split_from_other)
    qed
  qed
qed

lemma split_from_no_fence: "\<not> contains_fence s \<Longrightarrow> split_from acc s = [rev acc @ s]"
  by (induction s arbitrary: acc) (simp_all add: split_from_Nil split_from_other)

lemma split_from_fence_length: "contains_fence s \<Longrightarrow> 2 \<le> length (split_from acc s)"
proof (induction s arbitrary: acc)
  case Nil
  then show ?case by simp
next
  case (Cons c cs)
  show ?case
  proof (cases "startswith (c # cs) FENCE")
    case True
    have "1 \<le> length (split_from [] (drop 3 (c # cs)))"
      using split_from_nonempty [of "[]" "drop 3 (c # cs)"]
      by (cases "split_from [] (drop 3 (c # cs))") simp_all
    then show ?thesis using True by (simp add: split_from_fence)
  next
    case False
    then have "contains_fence cs" using Cons.prems by simp
    then show ?thesis using False Cons.IH by (simp add: split_from_other)
  qed
qed

lemma code_to_store_total: "\<exists>code. code_to_store t = Inr code"
proof (cases "contains_fence t")
  case True
  then have "1 < length (split_fence t)"
    using split_from_fence_length [of t "[]"] by (simp add: split_fence_def)
  then show ?thesis using True by (simp add: code_to_store_def py_index_def)
next
  case False
  then show ?thesis by (simp add: code_to_store_def)
qed

lemma generate_code_total: "\<exists>st'. generate_code g now p f l st = Inr st'"
proof -
  obtain code where "code_to_store (the (g (full_prompt l p))) = Inr code"
    using code_to_store_total by blast
  then show ?thesis by (simp add: generate_code_def Let_def)
qed

lemma extracted_code_no_fence:
  "\<not> contains_fence t \<Longrightarrow> extracted_code t = (None, ''python'')"
  by (simp add: extracted_code_def split_fence_def split_from_no_fence extract_loop.simps)

text \<open>
  C5, as the code has it. Neither flow raises an error in the extraction: the generate
  flow always ends with a state, and the correct flow's extraction is a total function.
  For a text without a marker the generate flow stores the whole text, stripped, with
  the language of the form; the correct flow extracts nothing and adds no snippet.
\<close>

theorem extraction_total_no_fence:
  "(\<exists>code. code_to_store t = Inr code) \<and>
   (\<exists>st'. generate_code g now p f l st = Inr st') \<and>
   (\<not> contains_fence t \<longrightarrow> code_to_store t = Inr (py_strip t)) \<and>
   (\<not> contains_fence t \<longrightarrow> t \<noteq> [] \<longrightarrow> p \<noteq> [] \<longrightarrow> g (full_prompt l p) = Some t \<longrightarrow>
      generate_code g now p f l st =
        Inr (append_snippet
              (CodeSnippet now f l (py_strip t)
                 (Some (''Generated from prompt: '' @ take 50 p @ ''...''))) st)) \<and>
   (\<not> contains_fence t \<longrightarrow>
      extracted_code t = (None, ''python'') \<and>
      generated_codes (record_answer now hms mode t st) = generated_codes st)"
proof (intro conjI impI)
  show "\<exists>code. code_to_store t = Inr code" by (rule code_to_store_total)
  show "\<exists>st'. generate_code g now p f l st = Inr st'" by (rule generate_code_total)
next
  assume "\<not> contains_fence t"
  then show "code_to_store t = Inr (py_strip t)" by (simp add: code_to_store_def)
next
  assume "\<not> contains_fence t" "t \<noteq> []" "p \<noteq> []" "g (full_prompt l p) = Some t"
  then show "generate_code g now p f l st =
        Inr (append_snippet
              (CodeSnippet now f l (py_strip t)
                 (Some (''Generated from prompt: '' @ take 50 p @ ''...''))) st)"
    by (simp add: generate_code_def code_to_store_def)
next
  assume "\<not> contains_fence t"
  then show "extracted_code t = (None, ''python'')" by (rule extracted_code_no_fence)
next
  assume "\<not> contains_fence t"
  then show "generated_codes (record_answer now hms mode t st) = generated_codes st"
    by (simp add: record_answer_def)
qed

theorem extraction_total_no_fence_witness:
  "code_to_store '' print(1) '' = Inr ''print(1)'' \<and>
   generate_code (\<lambda>p. Some '' print(1) '') ''1700000000.5'' ''print one'' ''one.py'' ''python'' AppState =
     Inr (append_snippet
           (CodeSnippet ''1700000000.5'' ''one.py'' ''python'' ''print(1)''
              (Some ''Generated from prompt: print one...'')) AppState) \<and>
   extracted_code '' print(1) '' = (None, ''python'') \<and>
   generated_codes (record_answer ''1700000002.5'' ''120000'' CorrectCode '' print(1) '' AppState) =
     generated_codes AppState"
proof -
  have h1: "\<not> contains_fence '' print(1) ''" by code_simp
  have h2: "'' print(1) '' \<noteq> []" by simp
  have h3: "''print one'' \<noteq> []" by simp
  have h4: "(\<lambda>p::string. Some '' print(1) '') (full_prompt ''python'' ''print one'') = Some '' print(1) ''"
    by simp
  have h5: "py_strip '' print(1) '' = ''print(1)''" by code_simp
  note t = extraction_total_no_fence
    [where t = "'' print(1) ''" and g = "\<lambda>p. Some '' print(1) ''" and now = "''1700000000.5''"
       and p = "''print one''" and f = "''one.py''" and l = "''python''" and st = AppState]
  from t h1 have a: "code_to_store '' print(1) '' = Inr (py_strip '' print(1) '')"
    by blast
  from t h1 h2 h3 h4 have b:
    "generate_code (\<lambda>p. Some '' print(1) '') ''1700000000.5'' ''print one'' ''one.py'' ''python'' AppState =
     Inr (append_snippet
           (CodeSnippet ''1700000000.5'' ''one.py'' ''python'' (py_strip '' print(1) '')
              (Some (''Generated from prompt: '' @ take 50 ''print one'' @ ''...''))) AppState)"
    by blast
  from extraction_total_no_fence
    [where t = "'' print(1) ''" and st = AppState and now = "''1700000002.5''"
       and hms = "''120000''" and mode = CorrectCode] h1
  have c: "extracted_code '' print(1) '' = (None, ''python'') \<and>
      generated_codes (record_answer ''1700000002.5'' ''120000'' CorrectCode '' print(1) '' AppState) =
      generated_codes AppState"
    by blast
  show ?thesis using a b c h5 by simp
qed

text \<open>
  C5, as the specification has it, fails for the correct flow: the answer \<open>print(1)\<close>
  has no marker, and the flow takes no content from it and adds no snippet.
\<close>

theorem extraction_no_fence_counterexample:
  "\<not> contains_fence ''print(1)'' \<and>
   fst (extracted_code ''print(1)'') \<noteq> Some (py_strip ''print(1)'') \<and>
   fst (extracted_code ''print(1)'') = None \<and>
   generated_codes (record_answer ''1700000002.5'' ''120000'' CorrectCode ''print(1)'' AppState) = []"
  by code_simp


section \<open>The first fenced region\<close>






















end
